theory Spec2Isabelle
  imports Main
begin

section \<open>Python values, errors and the query data structure\<close>

text \<open>
  The values a caller can put into a query field. The source only asks whether a value is
  \<^verbatim>\<open>None\<close> or an instance of \<^verbatim>\<open>str\<close>; integers and lists stand for everything else.
  A string is the list of the UTF-8 bytes of the Python string: an ASCII character is one
  byte below 128.
\<close>

datatype pyval = PyNone | PyStr string | PyInt int | PyList "pyval list"

text \<open>
  The exceptions that leave the module. \<open>RuntimeError\<close> keeps its message, since the source
  raises it at two places; \<open>UnboundLocalError\<close> keeps the name of the local variable that
  was read. \<open>ReError\<close> is \<^verbatim>\<open>re.error\<close>, \<open>RequestException\<close> is the one of \<^verbatim>\<open>requests\<close>.
\<close>

datatype error =
    TypeError
  | KeyError
  | ValueError
  | ConnectionError
  | RuntimeError string
  | RequestException
  | IndexError
  | AttributeError
  | UnboundLocalError string
  | ReError

text \<open>\<^verbatim>\<open>pdc_query = namedtuple('pdc_query', ('strain', 'feature', 'organism'), defaults=(None, None, None))\<close>\<close>

record pdc_query =
  strain :: pyval
  feature :: pyval
  organism :: pyval

text \<open>
  A Python \<^verbatim>\<open>dict\<close>: its items in insertion order. The dictionaries of a caller live in a
  store, so that the setter's writes to the caller's object are visible.
\<close>

type_synonym ('k, 'v) pydict = "('k \<times> 'v) list"

definition dict_setitem :: "('k, 'v) pydict \<Rightarrow> 'k \<Rightarrow> 'v \<Rightarrow> ('k, 'v) pydict" where
  "dict_setitem d k v =
     (if k \<in> set (map fst d)
      then map (\<lambda>kv. if fst kv = k then (k, v) else kv) d
      else d @ [(k, v)])"

definition dict_getitem :: "('k, 'v) pydict \<Rightarrow> 'k \<Rightarrow> error + 'v" where
  "dict_getitem d k = (case map_of d k of None \<Rightarrow> Inl KeyError | Some v \<Rightarrow> Inr v)"

text \<open>
  What \<^verbatim>\<open>query\<close> can be bound to: a plain value (\<open>QVal PyNone\<close> is \<^verbatim>\<open>None\<close>), a
  \<^verbatim>\<open>pdc_query\<close>, or a reference to a \<^verbatim>\<open>dict\<close> in the store.
\<close>

datatype query_arg = QVal pyval | QTuple pdc_query | QDict nat

section \<open>Pages, responses and the libraries\<close>

text \<open>
  A parsed page is the list of its tags in document order. Of a tag the source reads its
  name, its \<^verbatim>\<open>.string\<close>, its \<^verbatim>\<open>href\<close> attribute and its rendering \<^verbatim>\<open>str(tag)\<close>.
\<close>

record tag =
  tag_name :: string
  tag_string :: "string option"
  tag_href :: "string option"
  tag_str :: string

type_synonym soup = "tag list"

text \<open>A \<^verbatim>\<open>pandas.DataFrame\<close>: its rows; the empty frame \<^verbatim>\<open>DataFrame()\<close> has none.\<close>

type_synonym dataframe = "string list list"

definition DataFrame :: dataframe where
  "DataFrame = []"

text \<open>
  A response: the status code, the \<^verbatim>\<open>Content-Type\<close> header (\<open>None\<close> when the header is
  missing) and the content, given as the page \<^verbatim>\<open>BeautifulSoup(content, 'html.parser')\<close>
  makes of it.
\<close>

record response =
  status_code :: int
  content_type :: "string option"
  content :: soup

datatype http_result = NetFail | Resp response

text \<open>
  The third-party functions the module calls:
  \<^item> \<open>http_get url\<close> is \<^verbatim>\<open>requests.get(url, stream=True)\<close>, \<open>NetFail\<close> when it raises;
  \<^item> \<open>re_compile p\<close> is \<^verbatim>\<open>re.compile(p)\<close>, \<open>None\<close> when the pattern is malformed,
    otherwise the predicate that \<^verbatim>\<open>pattern.search(text)\<close> finds a match;
  \<^item> \<open>read_html s\<close> is \<^verbatim>\<open>pandas.read_html(s, index_col=0)\<close>, \<open>None\<close> when it raises;
  \<^item> \<open>str_upper s\<close> is \<^verbatim>\<open>s.upper()\<close> for a string \<open>s\<close> with a character beyond ASCII, where
    Unicode's case mapping decides (\<^verbatim>\<open>upper\<close> below computes the ASCII case itself).
\<close>

record env =
  http_get :: "string \<Rightarrow> http_result"
  re_compile :: "string \<Rightarrow> (string \<Rightarrow> bool) option"
  read_html :: "string \<Rightarrow> dataframe list option"
  str_upper :: "string \<Rightarrow> string"

text \<open>
  What the calls leave behind: the URLs requested, the lines printed, and the
  dictionaries of the caller.
\<close>

record world =
  requests :: "string list"
  stdout :: "string list"
  store :: "nat \<Rightarrow> (pyval, pyval) pydict"

definition print :: "string \<Rightarrow> world \<Rightarrow> world" where
  "print line w = w\<lparr>stdout := stdout w @ [line]\<rparr>"

section \<open>String methods\<close>

definition lower_char :: "char \<Rightarrow> char" where
  "lower_char c =
     (case map_of (zip ''ABCDEFGHIJKLMNOPQRSTUVWXYZ'' ''abcdefghijklmnopqrstuvwxyz'') c of
        None \<Rightarrow> c | Some l \<Rightarrow> l)"

definition upper_char :: "char \<Rightarrow> char" where
  "upper_char c =
     (case map_of (zip ''abcdefghijklmnopqrstuvwxyz'' ''ABCDEFGHIJKLMNOPQRSTUVWXYZ'') c of
        None \<Rightarrow> c | Some u \<Rightarrow> u)"

text \<open>
  \<^verbatim>\<open>s.lower()\<close>, as far as the source reads it: the source only looks for \<^verbatim>\<open>html\<close> in
  the result, and beyond ASCII no character has \<^verbatim>\<open>h\<close>, \<^verbatim>\<open>t\<close>, \<^verbatim>\<open>m\<close> or \<^verbatim>\<open>l\<close> in its
  lower case.
\<close>

definition lower :: "string \<Rightarrow> string" where
  "lower s = map lower_char s"

definition is_ascii :: "string \<Rightarrow> bool" where
  "is_ascii s = list_all (\<lambda>c. \<not> digit7 c) s"

text \<open>
  \<^verbatim>\<open>s.upper()\<close>: on an ASCII string the letters a to z become A to Z; on any other string
  the result is Unicode's, taken from the environment.
\<close>

definition upper :: "env \<Rightarrow> string \<Rightarrow> string" where
  "upper E s = (if is_ascii s then map upper_char s else str_upper E s)"

text \<open>\<^verbatim>\<open>s.find(sub)\<close>: the first index where \<open>sub\<close> starts in \<open>s\<close>, or \<open>-1\<close>.\<close>

fun str_find_from :: "int \<Rightarrow> string \<Rightarrow> string \<Rightarrow> int" where
  "str_find_from i [] sub = (if sub = [] then i else - 1)"
| "str_find_from i (c # cs) sub =
     (if take (length sub) (c # cs) = sub then i else str_find_from (i + 1) cs sub)"

definition str_find :: "string \<Rightarrow> string \<Rightarrow> int" where
  "str_find s sub = str_find_from 0 s sub"

text \<open>\<^verbatim>\<open>"{0:s}".format(v)\<close>: only a string has the format code \<^verbatim>\<open>s\<close>.\<close>

fun format_s :: "pyval \<Rightarrow> error + string" where
  "format_s (PyStr s) = Inr s"
| "format_s (PyInt _) = Inl ValueError"
| "format_s PyNone = Inl TypeError"
| "format_s (PyList _) = Inl TypeError"

section \<open>The scraper\<close>

record scraper =
  query :: "pdc_query option"
  pdc_url :: string
  browser :: "soup option"
  connected :: bool

subsection \<open>The query setter\<close>

definition accepted_keys :: "pyval list" where
  "accepted_keys = [PyStr ''strain'', PyStr ''feature'', PyStr ''organism'']"

text \<open>\<^verbatim>\<open>for k in present_keys: if not k in accepted_keys: raise KeyError(...)\<close>\<close>

fun check_keys :: "pyval list \<Rightarrow> error + unit" where
  "check_keys [] = Inr ()"
| "check_keys (k # ks) = (if k \<notin> set accepted_keys then Inl KeyError else check_keys ks)"

text \<open>\<^verbatim>\<open>if not key in val.keys(): val[key] = None\<close>\<close>

definition complete_key :: "pyval \<Rightarrow> (pyval, pyval) pydict \<Rightarrow> (pyval, pyval) pydict" where
  "complete_key k val = (if k \<notin> set (map fst val) then dict_setitem val k PyNone else val)"

definition complete_keywords :: "(pyval, pyval) pydict \<Rightarrow> (pyval, pyval) pydict" where
  "complete_keywords val =
     complete_key (PyStr ''organism'') (complete_key (PyStr ''feature'')
       (complete_key (PyStr ''strain'') val))"

definition dict_to_pdc_query :: "(pyval, pyval) pydict \<Rightarrow> error + pdc_query" where
  "dict_to_pdc_query kwargs =
     (case dict_getitem kwargs (PyStr ''strain'') of
        Inl e \<Rightarrow> Inl e
      | Inr s \<Rightarrow>
         (case dict_getitem kwargs (PyStr ''feature'') of
            Inl e \<Rightarrow> Inl e
          | Inr f \<Rightarrow>
             (case dict_getitem kwargs (PyStr ''organism'') of
                Inl e \<Rightarrow> Inl e
              | Inr g \<Rightarrow> Inr \<lparr>strain = s, feature = f, organism = g\<rparr>)))"

definition is_str_or_None :: "pyval \<Rightarrow> bool" where
  "is_str_or_None v = (case v of PyStr _ \<Rightarrow> True | PyNone \<Rightarrow> True | _ \<Rightarrow> False)"

text \<open>\<^verbatim>\<open>for v in val[:]: if not (isinstance(v, str) or v is None): raise TypeError(...)\<close>\<close>

fun check_values :: "pyval list \<Rightarrow> error + unit" where
  "check_values [] = Inr ()"
| "check_values (v # vs) = (if \<not> is_str_or_None v then Inl TypeError else check_values vs)"

text \<open>The checks on the \<^verbatim>\<open>pdc_query\<close> and the assignment to \<^verbatim>\<open>self.__query\<close>.\<close>

definition check_and_store ::
  "pdc_query \<Rightarrow> scraper \<Rightarrow> world \<Rightarrow> (error + unit) \<times> scraper \<times> world" where
  "check_and_store val s w =
     (if organism val \<noteq> PyNone \<and> strain val \<noteq> PyNone then (Inl KeyError, s, w)
      else
        (case check_values [strain val, feature val, organism val] of
           Inl e \<Rightarrow> (Inl e, s, w)
         | Inr _ \<Rightarrow> (Inr (), s\<lparr>query := Some val\<rparr>, w)))"

definition info_converted :: string where
  "info_converted = ''INFO: Query dictionary passed to pseudomonas.com scraper will now be converted to a pdc_query object. See reference manual for more details.''"

definition query_setter ::
  "query_arg \<Rightarrow> scraper \<Rightarrow> world \<Rightarrow> (error + unit) \<times> scraper \<times> world" where
  "query_setter val s w =
     (case (if val = QVal PyNone
            then QTuple \<lparr>strain = PyStr ''sbw25'', feature = PyNone, organism = PyNone\<rparr>
            else val) of
        QVal _ \<Rightarrow> (Inl TypeError, s, w)
      | QTuple q \<Rightarrow> check_and_store q s w
      | QDict a \<Rightarrow>
         (case check_keys (map fst (store w a)) of
            Inl e \<Rightarrow> (Inl e, s, w)
          | Inr _ \<Rightarrow>
             (let d = complete_keywords (store w a);
                  w1 = print info_converted (w\<lparr>store := (store w)(a := d)\<rparr>)
              in case dict_to_pdc_query d of
                   Inl e \<Rightarrow> (Inl e, s, w1)
                 | Inr q \<Rightarrow> check_and_store q s w1)))"

subsection \<open>The constructor\<close>

definition init :: "query_arg \<Rightarrow> world \<Rightarrow> (error + scraper) \<times> world" where
  "init val w =
     (let self = \<lparr>query = None, pdc_url = ''https://www.pseudomonas.com'',
                  browser = None, connected = False\<rparr>
      in case query_setter val self w of
           (Inl e, _, w1) \<Rightarrow> (Inl e, w1)
         | (Inr _, self1, w1) \<Rightarrow> (Inr self1, w1))"

subsection \<open>Fetching a page\<close>

definition is_good_response :: "response \<Rightarrow> error + bool" where
  "is_good_response resp =
     (case content_type resp of
        None \<Rightarrow> Inl KeyError
      | Some h \<Rightarrow>
         (let ct = lower h
          in Inr (status_code resp = 200 \<and> str_find ct ''html'' > - 1)))"

definition simple_get :: "env \<Rightarrow> string \<Rightarrow> world \<Rightarrow> (error + soup) \<times> world" where
  "simple_get E url w =
     (let w1 = w\<lparr>requests := requests w @ [url]\<rparr>
      in case http_get E url of
           NetFail \<Rightarrow> (Inl RequestException, w1)
         | Resp resp \<Rightarrow>
            (case is_good_response resp of
               Inl e \<Rightarrow> (Inl e, w1)
             | Inr good \<Rightarrow>
                (if good
                 then (Inr (content resp), print (''INFO: Good response from '' @ url @ ''.'') w1)
                 else (Inl (RuntimeError (''ERROR: Could not open '' @ url @ ''.'')), w1))))"

subsection \<open>connect\<close>

definition connect :: "env \<Rightarrow> scraper \<Rightarrow> world \<Rightarrow> (error + unit) \<times> scraper \<times> world" where
  "connect E s w =
     (case simple_get E (pdc_url s) w of
        (Inl e, w1) \<Rightarrow> (Inl ConnectionError, s\<lparr>connected := False\<rparr>, w1)
      | (Inr page, w1) \<Rightarrow> (Inr (), s\<lparr>browser := Some page, connected := True\<rparr>, w1))"

subsection \<open>Searching a page\<close>

text \<open>A tag fits \<^verbatim>\<open>(name, string=pattern)\<close> when it has the name and its \<^verbatim>\<open>.string\<close> matches.\<close>

definition fits :: "string \<Rightarrow> (string \<Rightarrow> bool) \<Rightarrow> tag \<Rightarrow> bool" where
  "fits name pat t =
     (tag_name t = name \<and> (case tag_string t of None \<Rightarrow> False | Some str \<Rightarrow> pat str))"

definition find_all :: "soup \<Rightarrow> string \<Rightarrow> (string \<Rightarrow> bool) \<Rightarrow> tag list" where
  "find_all sp name pat = filter (fits name pat) sp"

text \<open>\<^verbatim>\<open>soup.find(...)\<close>: the position of the first tag that fits, \<open>None\<close> when there is none.\<close>

fun find_from :: "nat \<Rightarrow> soup \<Rightarrow> string \<Rightarrow> (string \<Rightarrow> bool) \<Rightarrow> nat option" where
  "find_from i [] name pat = None"
| "find_from i (t # ts) name pat =
     (if fits name pat t then Some i else find_from (Suc i) ts name pat)"

definition find_one :: "soup \<Rightarrow> string \<Rightarrow> (string \<Rightarrow> bool) \<Rightarrow> nat option" where
  "find_one sp name pat = find_from 0 sp name pat"

text \<open>\<^verbatim>\<open>tag.find_next()\<close>: the tag after it in document order, \<open>None\<close> after the last one.\<close>

definition find_next :: "soup \<Rightarrow> nat \<Rightarrow> tag option" where
  "find_next sp i = (if Suc i < length sp then Some (sp ! Suc i) else None)"

subsection \<open>The table under a heading\<close>

definition warning_no_data :: "string \<Rightarrow> string" where
  "warning_no_data table_heading =
     ''WARNING: No data found for '' @ [CHR 0x27] @ table_heading @ [CHR 0x27]
       @ ''. Will return empty DataFrame.''"

definition pandasDF_from_heading ::
  "env \<Rightarrow> soup \<Rightarrow> string \<Rightarrow> world \<Rightarrow> (error + dataframe) \<times> world" where
  "pandasDF_from_heading E sp table_heading w =
     (case re_compile E table_heading of
        None \<Rightarrow> (Inl ReError, w)
      | Some pat \<Rightarrow>
         (case find_one sp ''h3'' pat of
            None \<Rightarrow> (Inl AttributeError, w)
          | Some i \<Rightarrow>
             (let table_ht = (case find_next sp i of None \<Rightarrow> ''None'' | Some t \<Rightarrow> tag_str t)
              in case read_html E table_ht of
                   Some (df # _) \<Rightarrow> (Inr df, w)
                 | _ \<Rightarrow> (Inr DataFrame, print (warning_no_data table_heading) w))))"

subsection \<open>run_query\<close>

definition not_connected :: string where
  "not_connected = ''Not connected. Call .connect() before submitting the query.''"

text \<open>
  The search URL; \<open>Inr None\<close> when neither branch assigns \<^verbatim>\<open>_url\<close>. The second argument
  is \<^verbatim>\<open>_feature\<close>.
\<close>

definition search_url :: "string \<Rightarrow> pyval \<Rightarrow> pdc_query \<Rightarrow> error + string option" where
  "search_url base feat q =
     (if strain q \<noteq> PyNone then
        (case format_s feat of
           Inl e \<Rightarrow> Inl e
         | Inr f \<Rightarrow>
            (case format_s (strain q) of
               Inl e \<Rightarrow> Inl e
             | Inr t \<Rightarrow>
                Inr (Some (base @ ''/primarySequenceFeature/list?c1=name&v1='' @ f
                             @ ''&e1=1&term1='' @ t @ ''&assembly=complete''))))
      else if organism q \<noteq> PyNone then
        (case format_s feat of
           Inl e \<Rightarrow> Inl e
         | Inr f \<Rightarrow>
            (case format_s (organism q) of
               Inl e \<Rightarrow> Inl e
             | Inr t \<Rightarrow>
                Inr (Some (base @ ''/primarySequenceFeature/list?c1=name&v1='' @ f
                             @ ''&e1=1&term2='' @ t @ ''&assembly=complete''))))
      else Inr None)"

text \<open>
  \<^verbatim>\<open>if _feature is not '': feature_link = browser.find_all('a', string=re.compile(_feature.upper()))[0].get('href')\<close>.
  The result is \<open>Inr None\<close> when \<^verbatim>\<open>feature_link\<close> stays unassigned, otherwise the value of
  the \<^verbatim>\<open>href\<close> attribute, which is \<^verbatim>\<open>None\<close> for a link without one. CPython keeps one
  empty string, so that \<^verbatim>\<open>is not ''\<close> holds of every other value and of no empty string.
\<close>

definition find_feature_link :: "env \<Rightarrow> soup \<Rightarrow> pyval \<Rightarrow> error + string option option" where
  "find_feature_link E page feat =
     (if feat \<noteq> PyStr [] then
        (case feat of
           PyStr f \<Rightarrow>
             (case re_compile E (upper E f) of
                None \<Rightarrow> Inl ReError
              | Some pat \<Rightarrow>
                 (case find_all page ''a'' pat of
                    [] \<Rightarrow> Inl IndexError
                  | t # _ \<Rightarrow> Inr (Some (tag_href t))))
         | _ \<Rightarrow> Inl AttributeError)
      else Inr None)"

type_synonym panels = "(string, dataframe) pydict"

definition headings1 :: "string list" where
  "headings1 = [''Gene Feature Overview'', ''Cross-References'', ''Product'',
     ''Subcellular localization'', ''Pathogen Association Analysis'',
     ''Orthologs/Comparative Genomics'', ''Interactions'']"

definition headings2 :: "string list" where
  "headings2 = [''Gene Ontology'',
     ''Functional Classifications Manually Assigned by PseudoCAP'',
     ''Functional Predictions from Interpro'']"

text \<open>The first loop: each round reads the heading's table and the references.\<close>

fun loop1 ::
  "env \<Rightarrow> soup \<Rightarrow> string list \<Rightarrow> panels \<Rightarrow> world \<Rightarrow> (error + panels) \<times> world" where
  "loop1 E page [] ps w = (Inr ps, w)"
| "loop1 E page (heading # hs) ps w =
     (case pandasDF_from_heading E page heading w of
        (Inl e, w1) \<Rightarrow> (Inl e, w1)
      | (Inr df, w1) \<Rightarrow>
         (case pandasDF_from_heading E page ''^References'' w1 of
            (Inl e, w2) \<Rightarrow> (Inl e, w2)
          | (Inr refs, w2) \<Rightarrow>
             loop1 E page hs
               (dict_setitem (dict_setitem ps heading df) ''References'' refs) w2))"

fun loop2 ::
  "env \<Rightarrow> soup \<Rightarrow> string list \<Rightarrow> panels \<Rightarrow> world \<Rightarrow> (error + panels) \<times> world" where
  "loop2 E page [] ps w = (Inr ps, w)"
| "loop2 E page (heading # hs) ps w =
     (case pandasDF_from_heading E page heading w of
        (Inl e, w1) \<Rightarrow> (Inl e, w1)
      | (Inr df, w1) \<Rightarrow> loop2 E page hs (dict_setitem ps heading df) w1)"

text \<open>From the feature page on: the two pages and their panels.\<close>

definition scrape_panels ::
  "env \<Rightarrow> string \<Rightarrow> world \<Rightarrow> (error + panels) \<times> world" where
  "scrape_panels E feature_link w =
     (case simple_get E feature_link w of
        (Inl e, w1) \<Rightarrow> (Inl e, w1)
      | (Inr page, w1) \<Rightarrow>
         (case loop1 E page headings1 [] w1 of
            (Inl e, w2) \<Rightarrow> (Inl e, w2)
          | (Inr ps, w2) \<Rightarrow>
             (let function_url = feature_link @ ''&view=functions''
              in case simple_get E function_url w2 of
                   (Inl e, w3) \<Rightarrow> (Inl e, w3)
                 | (Inr page2, w3) \<Rightarrow> loop2 E page2 headings2 ps w3)))"

text \<open>From \<^verbatim>\<open>_feature = self.query.feature\<close> on.\<close>

definition submit :: "env \<Rightarrow> scraper \<Rightarrow> world \<Rightarrow> (error + panels) \<times> world" where
  "submit E s w =
     (case query s of
        None \<Rightarrow> (Inl AttributeError, w)
      | Some q \<Rightarrow>
         (let feat = (if feature q = PyNone then PyStr [] else feature q)
          in case search_url (pdc_url s) feat q of
               Inl e \<Rightarrow> (Inl e, w)
             | Inr None \<Rightarrow> (Inl (UnboundLocalError ''_url''), w)
             | Inr (Some url) \<Rightarrow>
                (case simple_get E url (print (''DEBUG: Will now open '' @ url) w) of
                   (Inl e, w1) \<Rightarrow> (Inl e, w1)
                 | (Inr page, w1) \<Rightarrow>
                    (case find_feature_link E page feat of
                       Inl e \<Rightarrow> (Inl e, w1)
                     | Inr None \<Rightarrow> (Inl (UnboundLocalError ''feature_link''), w1)
                     | Inr (Some None) \<Rightarrow> (Inl TypeError, w1)
                     | Inr (Some (Some href)) \<Rightarrow> scrape_panels E (pdc_url s @ href) w1))))"

definition run_query ::
  "env \<Rightarrow> query_arg \<Rightarrow> scraper \<Rightarrow> world \<Rightarrow> (error + panels) \<times> scraper \<times> world" where
  "run_query E val s w =
     (if \<not> connected s then (Inl (RuntimeError not_connected), s, w)
      else
        (case (if val \<noteq> QVal PyNone then query_setter val s w else (Inr (), s, w)) of
           (Inl e, s1, w1) \<Rightarrow> (Inl e, s1, w1)
         | (Inr _, s1, w1) \<Rightarrow>
            (case submit E s1 w1 of (r, w2) \<Rightarrow> (r, s1, w2))))"

section \<open>Vocabulary of the statements\<close>

text \<open>\<^verbatim>\<open>d.get(k)\<close>: the value under \<open>k\<close>, \<^verbatim>\<open>None\<close> for a missing key.\<close>

definition dict_get :: "(pyval, pyval) pydict \<Rightarrow> pyval \<Rightarrow> pyval" where
  "dict_get d k = (case map_of d k of None \<Rightarrow> PyNone | Some v \<Rightarrow> v)"

text \<open>
  The query invariant of the data model: strain and organism are not both set, and
  every field is a string or \<^verbatim>\<open>None\<close>.
\<close>

definition valid_query :: "pdc_query \<Rightarrow> bool" where
  "valid_query q =
     ((strain q = PyNone \<or> organism q = PyNone)
      \<and> is_str_or_None (strain q) \<and> is_str_or_None (feature q) \<and> is_str_or_None (organism q))"

text \<open>The invalid-argument errors: the setter raises \<^verbatim>\<open>KeyError\<close> and \<^verbatim>\<open>TypeError\<close>.\<close>

definition invalid_argument :: "error \<Rightarrow> bool" where
  "invalid_argument e = (e = KeyError \<or> e = TypeError)"

text \<open>The scraper a successful constructor call returns for the query \<open>q\<close>.\<close>

definition new_scraper :: "pdc_query \<Rightarrow> scraper" where
  "new_scraper q =
     \<lparr>query = Some q, pdc_url = ''https://www.pseudomonas.com'', browser = None,
      connected = False\<rparr>"

definition default_query :: pdc_query where
  "default_query = \<lparr>strain = PyStr ''sbw25'', feature = PyNone, organism = PyNone\<rparr>"

section \<open>A mocked site\<close>

text \<open>
  \<^verbatim>\<open>re.compile\<close> on patterns without metacharacters, and on such patterns behind a
  leading \<^verbatim>\<open>^\<close>: the search finds the pattern anywhere in the text, or at its start.
  The mocked site is asked for no other pattern.
\<close>

definition mock_re :: "string \<Rightarrow> (string \<Rightarrow> bool) option" where
  "mock_re p =
     (case p of
        [] \<Rightarrow> Some (\<lambda>text. True)
      | c # r \<Rightarrow>
         (if c = CHR ''^'' then Some (\<lambda>text. take (length r) text = r)
          else Some (\<lambda>text. str_find text p > - 1)))"

definition table_html :: string where
  "table_html = ''<table><tr><th>k</th><th>v</th></tr><tr><td>a</td><td>b</td></tr></table>''"

definition mock_read_html :: "string \<Rightarrow> dataframe list option" where
  "mock_read_html s = (if s = table_html then Some [[[''a'', ''b'']]] else None)"

text \<open>
  A site that serves the listed pages and is unreachable at every other URL. Its pages
  and the queries put to it are ASCII.
\<close>

definition site :: "(string \<times> response) list \<Rightarrow> env" where
  "site pages =
     \<lparr>http_get = (\<lambda>url. case map_of pages url of None \<Rightarrow> NetFail | Some r \<Rightarrow> Resp r),
      re_compile = mock_re, read_html = mock_read_html, str_upper = map upper_char\<rparr>"

definition html_page :: "soup \<Rightarrow> response" where
  "html_page sp = \<lparr>status_code = 200, content_type = Some ''text/html; charset=UTF-8'', content = sp\<rparr>"

definition heading_tag :: "string \<Rightarrow> tag" where
  "heading_tag title =
     \<lparr>tag_name = ''h3'', tag_string = Some title, tag_href = None,
      tag_str = ''<h3>'' @ title @ ''</h3>''\<rparr>"

definition table_tag :: tag where
  "table_tag = \<lparr>tag_name = ''table'', tag_string = None, tag_href = None, tag_str = table_html\<rparr>"

definition link_tag :: "string \<Rightarrow> string \<Rightarrow> tag" where
  "link_tag href text =
     \<lparr>tag_name = ''a'', tag_string = Some text, tag_href = Some href,
      tag_str = ''<a href='' @ href @ ''>'' @ text @ ''</a>''\<rparr>"

definition fresh :: world where
  "fresh = \<lparr>requests = [], stdout = [], store = (\<lambda>a. [])\<rparr>"

text \<open>The world in which the caller holds the dictionary \<open>d\<close> at address \<open>0\<close>.\<close>

definition holding :: "(pyval, pyval) pydict \<Rightarrow> world" where
  "holding d = \<lparr>requests = [], stdout = [], store = (\<lambda>a. if a = 0 then d else [])\<rparr>"

text \<open>The query of the constructor's docstring, its search URL and a search result.\<close>

definition pflu0916_query :: pdc_query where
  "pflu0916_query = \<lparr>strain = PyStr ''sbw25'', feature = PyStr ''pflu0916'', organism = PyNone\<rparr>"

definition pflu0916_search :: string where
  "pflu0916_search = ''https://www.pseudomonas.com/primarySequenceFeature/list?c1=name&v1=pflu0916&e1=1&term1=sbw25&assembly=complete''"

definition search_result :: soup where
  "search_result = [link_tag ''/'' ''Home'', link_tag ''/feature/show/?id=1459889'' ''PFLU0916'',
     link_tag ''/feature/show/?id=1459890'' ''PFLU0917'']"

text \<open>The search URL of the default query.\<close>

definition sbw25_search :: string where
  "sbw25_search = ''https://www.pseudomonas.com/primarySequenceFeature/list?c1=name&v1=&e1=1&term1=sbw25&assembly=complete''"

text \<open>A scraper after a successful \<^verbatim>\<open>connect\<close>.\<close>

definition connected_scraper :: "pdc_query \<Rightarrow> scraper" where
  "connected_scraper q = (new_scraper q)\<lparr>browser := Some [], connected := True\<rparr>"

section \<open>The query setter: lemmas\<close>

lemma check_keys_eq:
  "check_keys ks = (if set ks \<subseteq> set accepted_keys then Inr () else Inl KeyError)"
  by (induction ks) auto

lemma complete_keywords_eq:
  "complete_keywords d =
     d @ map (\<lambda>k. (k, PyNone)) (filter (\<lambda>k. k \<notin> set (map fst d)) accepted_keys)"
  by (simp add: complete_keywords_def complete_key_def dict_setitem_def accepted_keys_def)

lemma map_of_complete_keywords:
  assumes "k \<in> set accepted_keys"
  shows "map_of (complete_keywords d) k = Some (dict_get d k)"
proof (cases "map_of d k")
  case None
  then have "k \<notin> set (map fst d)"
    by (simp add: map_of_eq_None_iff)
  with assms have "map_of (map (\<lambda>k. (k, PyNone))
      (filter (\<lambda>k. k \<notin> set (map fst d)) accepted_keys)) k = Some PyNone"
    by (simp add: map_of_map_restrict restrict_map_def)
  with None show ?thesis
    by (simp add: complete_keywords_eq dict_get_def map_add_def)
next
  case (Some v)
  then show ?thesis
    by (simp add: complete_keywords_eq dict_get_def map_add_def)
qed

lemma dict_to_pdc_query_complete:
  "dict_to_pdc_query (complete_keywords d) =
     Inr \<lparr>strain = dict_get d (PyStr ''strain''), feature = dict_get d (PyStr ''feature''),
          organism = dict_get d (PyStr ''organism'')\<rparr>"
  by (simp add: dict_to_pdc_query_def dict_getitem_def map_of_complete_keywords accepted_keys_def)

lemma check_values_eq:
  "check_values vs = (if list_all is_str_or_None vs then Inr () else Inl TypeError)"
  by (induction vs) auto

lemma check_and_store_valid:
  "valid_query q \<Longrightarrow> check_and_store q s w = (Inr (), s\<lparr>query := Some q\<rparr>, w)"
  by (auto simp: valid_query_def check_and_store_def check_values_eq)

lemma check_and_store_invalid:
  "\<not> valid_query q \<Longrightarrow> \<exists>e. invalid_argument e \<and> check_and_store q s w = (Inl e, s, w)"
  by (auto simp: valid_query_def check_and_store_def check_values_eq invalid_argument_def)

lemma query_setter_dict:
  "set (map fst (store w a)) \<subseteq> set accepted_keys \<Longrightarrow>
   query_setter (QDict a) s w =
     check_and_store
       \<lparr>strain = dict_get (store w a) (PyStr ''strain''),
        feature = dict_get (store w a) (PyStr ''feature''),
        organism = dict_get (store w a) (PyStr ''organism'')\<rparr> s
       (print info_converted (w\<lparr>store := (store w)(a := complete_keywords (store w a))\<rparr>))"
  by (simp add: query_setter_def check_keys_eq dict_to_pdc_query_complete Let_def)

lemma query_setter_unknown_key:
  "\<not> set (map fst (store w a)) \<subseteq> set accepted_keys \<Longrightarrow>
   query_setter (QDict a) s w = (Inl KeyError, s, w)"
  by (simp add: query_setter_def check_keys_eq)

lemma query_setter_tuple: "query_setter (QTuple q) s w = check_and_store q s w"
  by (simp add: query_setter_def)

section \<open>Validation of the query\<close>

text \<open>
  C5. A query in which both strain and organism are set is always rejected, as a
  \<^verbatim>\<open>pdc_query\<close> and as a dictionary: the setter raises \<^verbatim>\<open>KeyError\<close>, the module's
  invalid-argument error, the stored query stays as it was, and the constructor raises
  the same error.
\<close>

theorem strain_and_organism_rejected:
  "(strain q \<noteq> PyNone \<and> organism q \<noteq> PyNone \<longrightarrow>
      query_setter (QTuple q) s w = (Inl KeyError, s, w)
      \<and> fst (init (QTuple q) w) = Inl KeyError)
   \<and> (dict_get (store w a) (PyStr ''strain'') \<noteq> PyNone
        \<and> dict_get (store w a) (PyStr ''organism'') \<noteq> PyNone \<longrightarrow>
      fst (query_setter (QDict a) s w) = Inl KeyError
      \<and> fst (snd (query_setter (QDict a) s w)) = s
      \<and> fst (init (QDict a) w) = Inl KeyError)"
proof (intro conjI impI)
  assume both: "strain q \<noteq> PyNone \<and> organism q \<noteq> PyNone"
  then show "query_setter (QTuple q) s w = (Inl KeyError, s, w)"
    by (simp add: query_setter_tuple check_and_store_def)
  from both show "fst (init (QTuple q) w) = Inl KeyError"
    by (simp add: init_def query_setter_tuple check_and_store_def)
next
  assume both: "dict_get (store w a) (PyStr ''strain'') \<noteq> PyNone
    \<and> dict_get (store w a) (PyStr ''organism'') \<noteq> PyNone"
  have *: "fst (query_setter (QDict a) s' w) = Inl KeyError
      \<and> fst (snd (query_setter (QDict a) s' w)) = s'" for s'
  proof (cases "set (map fst (store w a)) \<subseteq> set accepted_keys")
    case True
    with both show ?thesis
      by (simp add: query_setter_dict check_and_store_def)
  next
    case False
    then show ?thesis
      by (simp add: query_setter_unknown_key)
  qed
  from * show "fst (query_setter (QDict a) s w) = Inl KeyError" by simp
  from * show "fst (snd (query_setter (QDict a) s w)) = s" by simp
  from * [of "\<lparr>query = None, pdc_url = ''https://www.pseudomonas.com'', browser = None,
      connected = False\<rparr>"]
  show "fst (init (QDict a) w) = Inl KeyError"
    by (auto simp: init_def split: prod.splits sum.splits)
qed

theorem strain_and_organism_rejected_witness:
  "strain \<lparr>strain = PyStr ''sbw25'', feature = PyNone, organism = PyStr ''fluorescens''\<rparr> \<noteq> PyNone
   \<and> organism \<lparr>strain = PyStr ''sbw25'', feature = PyNone, organism = PyStr ''fluorescens''\<rparr> \<noteq> PyNone
   \<and> query_setter
        (QTuple \<lparr>strain = PyStr ''sbw25'', feature = PyNone, organism = PyStr ''fluorescens''\<rparr>)
        (new_scraper default_query) fresh
      = (Inl KeyError, new_scraper default_query, fresh)
   \<and> dict_get (store (holding [(PyStr ''organism'', PyStr ''fluorescens''),
          (PyStr ''strain'', PyStr ''sbw25'')]) 0) (PyStr ''strain'') \<noteq> PyNone
   \<and> dict_get (store (holding [(PyStr ''organism'', PyStr ''fluorescens''),
          (PyStr ''strain'', PyStr ''sbw25'')]) 0) (PyStr ''organism'') \<noteq> PyNone
   \<and> fst (init (QDict 0) (holding [(PyStr ''organism'', PyStr ''fluorescens''),
          (PyStr ''strain'', PyStr ''sbw25'')])) = Inl KeyError"
  using strain_and_organism_rejected
    [of "\<lparr>strain = PyStr ''sbw25'', feature = PyNone, organism = PyStr ''fluorescens''\<rparr>"
        "new_scraper default_query" "holding [(PyStr ''organism'', PyStr ''fluorescens''),
          (PyStr ''strain'', PyStr ''sbw25'')]" 0]
    strain_and_organism_rejected
    [of "\<lparr>strain = PyStr ''sbw25'', feature = PyNone, organism = PyStr ''fluorescens''\<rparr>"
        "new_scraper default_query" fresh 0]
  by (simp add: holding_def dict_get_def)

text \<open>
  C6. A valid query (at most one of strain and organism set, every field a string or
  \<^verbatim>\<open>None\<close>) is accepted by the constructor and read back unchanged, when it is given
  as a \<^verbatim>\<open>pdc_query\<close> and when it is given as a dictionary of accepted keys; without a
  query the stored query is strain \<^verbatim>\<open>sbw25\<close>, feature and organism \<^verbatim>\<open>None\<close>.
\<close>

theorem valid_query_roundtrip:
  "(valid_query q \<longrightarrow>
      init (QTuple q) w = (Inr (new_scraper q), w) \<and> query (new_scraper q) = Some q)
   \<and> (set (map fst (store w a)) \<subseteq> set accepted_keys
        \<and> valid_query \<lparr>strain = dict_get (store w a) (PyStr ''strain''),
              feature = dict_get (store w a) (PyStr ''feature''),
              organism = dict_get (store w a) (PyStr ''organism'')\<rparr> \<longrightarrow>
      (\<exists>self q'. fst (init (QDict a) w) = Inr self \<and> query self = Some q'
         \<and> strain q' = dict_get (store w a) (PyStr ''strain'')
         \<and> feature q' = dict_get (store w a) (PyStr ''feature'')
         \<and> organism q' = dict_get (store w a) (PyStr ''organism'')))
   \<and> init (QVal PyNone) w = (Inr (new_scraper default_query), w)
   \<and> query (new_scraper default_query)
       = Some \<lparr>strain = PyStr ''sbw25'', feature = PyNone, organism = PyNone\<rparr>"
proof (intro conjI impI)
  assume "valid_query q"
  then show "init (QTuple q) w = (Inr (new_scraper q), w)"
    by (simp add: init_def query_setter_tuple check_and_store_valid new_scraper_def)
next
  show "query (new_scraper q) = Some q"
    by (simp add: new_scraper_def)
next
  let ?q = "\<lparr>strain = dict_get (store w a) (PyStr ''strain''),
              feature = dict_get (store w a) (PyStr ''feature''),
              organism = dict_get (store w a) (PyStr ''organism'')\<rparr>"
  assume "set (map fst (store w a)) \<subseteq> set accepted_keys \<and> valid_query ?q"
  then have "fst (init (QDict a) w) = Inr (new_scraper ?q)"
    by (simp add: init_def query_setter_dict check_and_store_valid new_scraper_def)
  then show "\<exists>self q'. fst (init (QDict a) w) = Inr self \<and> query self = Some q'
         \<and> strain q' = dict_get (store w a) (PyStr ''strain'')
         \<and> feature q' = dict_get (store w a) (PyStr ''feature'')
         \<and> organism q' = dict_get (store w a) (PyStr ''organism'')"
    by (simp add: new_scraper_def)
next
  have "valid_query default_query"
    by (simp add: valid_query_def default_query_def is_str_or_None_def)
  then show "init (QVal PyNone) w = (Inr (new_scraper default_query), w)"
    by (simp add: init_def query_setter_def check_and_store_valid new_scraper_def
        default_query_def)
next
  show "query (new_scraper default_query)
       = Some \<lparr>strain = PyStr ''sbw25'', feature = PyNone, organism = PyNone\<rparr>"
    by (simp add: new_scraper_def default_query_def)
qed

theorem valid_query_roundtrip_witness:
  "valid_query \<lparr>strain = PyStr ''sbw25'', feature = PyStr ''pflu0916'', organism = PyNone\<rparr>
   \<and> init (QTuple \<lparr>strain = PyStr ''sbw25'', feature = PyStr ''pflu0916'', organism = PyNone\<rparr>)
        fresh
      = (Inr (new_scraper \<lparr>strain = PyStr ''sbw25'', feature = PyStr ''pflu0916'',
            organism = PyNone\<rparr>), fresh)
   \<and> set (map fst (store (holding [(PyStr ''feature'', PyStr ''pflu0916''),
          (PyStr ''organism'', PyStr ''fluorescens'')]) 0)) \<subseteq> set accepted_keys
   \<and> (\<exists>self. fst (init (QDict 0) (holding [(PyStr ''feature'', PyStr ''pflu0916''),
          (PyStr ''organism'', PyStr ''fluorescens'')])) = Inr self
        \<and> query self = Some \<lparr>strain = PyNone, feature = PyStr ''pflu0916'',
            organism = PyStr ''fluorescens''\<rparr>)"
proof -
  let ?q = "\<lparr>strain = PyStr ''sbw25'', feature = PyStr ''pflu0916'', organism = PyNone\<rparr>"
  let ?d = "[(PyStr ''feature'', PyStr ''pflu0916''), (PyStr ''organism'', PyStr ''fluorescens'')]"
  have v: "valid_query ?q"
    by (simp add: valid_query_def is_str_or_None_def)
  have k: "set (map fst (store (holding ?d) 0)) \<subseteq> set accepted_keys"
    by (simp add: holding_def accepted_keys_def)
  have g: "dict_get (store (holding ?d) 0) (PyStr ''strain'') = PyNone"
    "dict_get (store (holding ?d) 0) (PyStr ''feature'') = PyStr ''pflu0916''"
    "dict_get (store (holding ?d) 0) (PyStr ''organism'') = PyStr ''fluorescens''"
    by (simp_all add: holding_def dict_get_def)
  have vd: "valid_query \<lparr>strain = dict_get (store (holding ?d) 0) (PyStr ''strain''),
              feature = dict_get (store (holding ?d) 0) (PyStr ''feature''),
              organism = dict_get (store (holding ?d) 0) (PyStr ''organism'')\<rparr>"
    by (simp add: g valid_query_def is_str_or_None_def)
  from valid_query_roundtrip [of ?q fresh] valid_query_roundtrip [of ?q "holding ?d" 0] v k vd
  have "init (QTuple ?q) fresh = (Inr (new_scraper ?q), fresh)"
    and "\<exists>self q'. fst (init (QDict 0) (holding ?d)) = Inr self \<and> query self = Some q'
         \<and> strain q' = dict_get (store (holding ?d) 0) (PyStr ''strain'')
         \<and> feature q' = dict_get (store (holding ?d) 0) (PyStr ''feature'')
         \<and> organism q' = dict_get (store (holding ?d) 0) (PyStr ''organism'')"
    by blast+
  then show ?thesis
    using v k by (auto simp: g)
qed



text \<open>
  C8. A query with a field value that is neither a string nor \<^verbatim>\<open>None\<close> is always
  rejected with an invalid-argument error (\<^verbatim>\<open>TypeError\<close>, or \<^verbatim>\<open>KeyError\<close> when strain
  and organism are both set or a key is unknown), as a \<^verbatim>\<open>pdc_query\<close> and as a
  dictionary (its keys distinct, as the keys of a \<^verbatim>\<open>dict\<close> are), and the stored query
  stays as it was.
\<close>

theorem non_string_value_rejected:
  "(\<not> (is_str_or_None (strain q) \<and> is_str_or_None (feature q) \<and> is_str_or_None (organism q))
      \<longrightarrow> (\<exists>e. invalid_argument e \<and> query_setter (QTuple q) s w = (Inl e, s, w)))
   \<and> (distinct (map fst (store w a)) \<and> (k, v) \<in> set (store w a) \<and> \<not> is_str_or_None v
      \<longrightarrow> (\<exists>e. invalid_argument e \<and> fst (query_setter (QDict a) s w) = Inl e
            \<and> fst (snd (query_setter (QDict a) s w)) = s))"
proof (intro conjI impI)
  assume "\<not> (is_str_or_None (strain q) \<and> is_str_or_None (feature q)
    \<and> is_str_or_None (organism q))"
  then have "\<not> valid_query q"
    by (simp add: valid_query_def)
  from check_and_store_invalid [OF this]
  show "\<exists>e. invalid_argument e \<and> query_setter (QTuple q) s w = (Inl e, s, w)"
    by (simp add: query_setter_tuple)
next
  let ?q = "\<lparr>strain = dict_get (store w a) (PyStr ''strain''),
              feature = dict_get (store w a) (PyStr ''feature''),
              organism = dict_get (store w a) (PyStr ''organism'')\<rparr>"
  assume h: "distinct (map fst (store w a)) \<and> (k, v) \<in> set (store w a) \<and> \<not> is_str_or_None v"
  show "\<exists>e. invalid_argument e \<and> fst (query_setter (QDict a) s w) = Inl e
            \<and> fst (snd (query_setter (QDict a) s w)) = s"
  proof (cases "set (map fst (store w a)) \<subseteq> set accepted_keys")
    case False
    then show ?thesis
      by (simp add: query_setter_unknown_key invalid_argument_def)
  next
    case True
    from h have "map_of (store w a) k = Some v"
      by (simp add: map_of_is_SomeI)
    then have get: "dict_get (store w a) k = v"
      by (simp add: dict_get_def)
    from h True have "k \<in> set accepted_keys"
      by force
    with get h have "\<not> valid_query ?q"
      by (auto simp: valid_query_def accepted_keys_def)
    from check_and_store_invalid [OF this, of s
        "print info_converted (w\<lparr>store := (store w)(a := complete_keywords (store w a))\<rparr>)"]
      True show ?thesis
      by (auto simp: query_setter_dict)
  qed
qed

theorem non_string_value_rejected_witness:
  "\<not> is_str_or_None (feature \<lparr>strain = PyStr ''sbw25'', feature = PyInt 916, organism = PyNone\<rparr>)
   \<and> query_setter (QTuple \<lparr>strain = PyStr ''sbw25'', feature = PyInt 916, organism = PyNone\<rparr>)
        (new_scraper default_query) fresh
      = (Inl TypeError, new_scraper default_query, fresh)
   \<and> distinct (map fst (store (holding [(PyStr ''strain'', PyList [PyStr ''sbw25''])]) 0))
   \<and> (PyStr ''strain'', PyList [PyStr ''sbw25''])
        \<in> set (store (holding [(PyStr ''strain'', PyList [PyStr ''sbw25''])]) 0)
   \<and> \<not> is_str_or_None (PyList [PyStr ''sbw25''])
   \<and> fst (query_setter (QDict 0) (new_scraper default_query)
        (holding [(PyStr ''strain'', PyList [PyStr ''sbw25''])])) = Inl TypeError"
proof -
  let ?q = "\<lparr>strain = PyStr ''sbw25'', feature = PyInt 916, organism = PyNone\<rparr>"
  let ?w = "holding [(PyStr ''strain'', PyList [PyStr ''sbw25''])]"
  let ?s = "new_scraper default_query"
  have a: "\<not> (is_str_or_None (strain ?q) \<and> is_str_or_None (feature ?q)
      \<and> is_str_or_None (organism ?q))"
    by (simp add: is_str_or_None_def)
  have b: "distinct (map fst (store ?w 0))
      \<and> (PyStr ''strain'', PyList [PyStr ''sbw25'']) \<in> set (store ?w 0)
      \<and> \<not> is_str_or_None (PyList [PyStr ''sbw25''])"
    by (simp add: holding_def is_str_or_None_def)
  from non_string_value_rejected [of ?q ?s fresh] a
  obtain e where "invalid_argument e" "query_setter (QTuple ?q) ?s fresh = (Inl e, ?s, fresh)"
    by blast
  then have 1: "query_setter (QTuple ?q) ?s fresh = (Inl TypeError, ?s, fresh)"
    by (simp add: query_setter_tuple check_and_store_def is_str_or_None_def)
  from non_string_value_rejected [of ?q ?s ?w 0 "PyStr ''strain''" "PyList [PyStr ''sbw25'']"] b
  obtain e' where "invalid_argument e'" "fst (query_setter (QDict 0) ?s ?w) = Inl e'"
    by blast
  then have 2: "fst (query_setter (QDict 0) ?s ?w) = Inl TypeError"
    by (simp add: query_setter_def holding_def accepted_keys_def complete_keywords_def
        complete_key_def dict_setitem_def dict_to_pdc_query_def dict_getitem_def
        check_and_store_def is_str_or_None_def)
  from 1 2 b show ?thesis
    by (simp add: is_str_or_None_def)
qed

section \<open>The caller's dictionary\<close>

lemma check_and_store_world: "snd (snd (check_and_store q s w)) = w"
  by (simp add: check_and_store_def split: sum.splits)

text \<open>
  C10, as stated, fails: setting the query from the dictionary \<^verbatim>\<open>{'gene': 'pflu0916'}\<close>
  raises \<^verbatim>\<open>KeyError\<close> before any key is inserted, and the dictionary is left as it was,
  without the keys strain, feature and organism.
\<close>

theorem rejected_dict_unchanged_counterexample:
  "fst (query_setter (QDict 0) (new_scraper default_query)
      (holding [(PyStr ''gene'', PyStr ''pflu0916'')])) = Inl KeyError
   \<and> store (snd (snd (query_setter (QDict 0) (new_scraper default_query)
        (holding [(PyStr ''gene'', PyStr ''pflu0916'')])))) 0
      = [(PyStr ''gene'', PyStr ''pflu0916'')]
   \<and> PyStr ''strain'' \<notin> set (map fst (store (snd (snd (query_setter (QDict 0)
        (new_scraper default_query) (holding [(PyStr ''gene'', PyStr ''pflu0916'')])))) 0))"
  by (simp add: query_setter_def holding_def accepted_keys_def)

text \<open>
  C10, amended. When the query is set from a dictionary whose keys all are among
  strain, feature and organism, the caller's dictionary is written to: each of the three
  keys it lacks is appended with the value \<^verbatim>\<open>None\<close> (in the order strain, feature,
  organism), whether the later checks accept the query or not, so a dictionary that
  lacks one of them is changed; no other dictionary changes. A dictionary with another
  key is rejected before any insertion and stays as it was.
\<close>

theorem query_setter_completes_dict:
  "(set (map fst (store w a)) \<subseteq> set accepted_keys \<longrightarrow>
      store (snd (snd (query_setter (QDict a) s w)))
        = (store w)(a := store w a
             @ map (\<lambda>k. (k, PyNone))
                 (filter (\<lambda>k. k \<notin> set (map fst (store w a))) accepted_keys))
      \<and> ((\<exists>k. k \<in> set accepted_keys \<and> k \<notin> set (map fst (store w a))) \<longrightarrow>
           store (snd (snd (query_setter (QDict a) s w))) a \<noteq> store w a))
   \<and> (\<not> set (map fst (store w a)) \<subseteq> set accepted_keys \<longrightarrow>
      store (snd (snd (query_setter (QDict a) s w))) = store w)"
proof (intro conjI impI)
  assume keys: "set (map fst (store w a)) \<subseteq> set accepted_keys"
  then show eq: "store (snd (snd (query_setter (QDict a) s w)))
        = (store w)(a := store w a
             @ map (\<lambda>k. (k, PyNone))
                 (filter (\<lambda>k. k \<notin> set (map fst (store w a))) accepted_keys))"
    by (simp add: query_setter_dict check_and_store_world print_def complete_keywords_eq)
  assume "\<exists>k. k \<in> set accepted_keys \<and> k \<notin> set (map fst (store w a))"
  then have "filter (\<lambda>k. k \<notin> set (map fst (store w a))) accepted_keys \<noteq> []"
    by (auto simp: filter_empty_conv)
  with eq show "store (snd (snd (query_setter (QDict a) s w))) a \<noteq> store w a"
    by simp
next
  assume "\<not> set (map fst (store w a)) \<subseteq> set accepted_keys"
  then show "store (snd (snd (query_setter (QDict a) s w))) = store w"
    by (simp add: query_setter_unknown_key)
qed

theorem query_setter_completes_dict_witness:
  "set (map fst (store (holding [(PyStr ''feature'', PyStr ''pflu0916'')]) 0))
      \<subseteq> set accepted_keys
   \<and> store (snd (snd (query_setter (QDict 0) (new_scraper default_query)
        (holding [(PyStr ''feature'', PyStr ''pflu0916'')])))) 0
      = [(PyStr ''feature'', PyStr ''pflu0916''), (PyStr ''strain'', PyNone),
         (PyStr ''organism'', PyNone)]
   \<and> \<not> set (map fst (store (holding [(PyStr ''gene'', PyStr ''pflu0916'')]) 0))
      \<subseteq> set accepted_keys
   \<and> store (snd (snd (query_setter (QDict 0) (new_scraper default_query)
        (holding [(PyStr ''gene'', PyStr ''pflu0916'')]))))
      = store (holding [(PyStr ''gene'', PyStr ''pflu0916'')])"
proof -
  let ?good = "holding [(PyStr ''feature'', PyStr ''pflu0916'')]"
  let ?bad = "holding [(PyStr ''gene'', PyStr ''pflu0916'')]"
  have g: "set (map fst (store ?good 0)) \<subseteq> set accepted_keys"
    by (simp add: holding_def accepted_keys_def)
  have b: "\<not> set (map fst (store ?bad 0)) \<subseteq> set accepted_keys"
    by (simp add: holding_def accepted_keys_def)
  from query_setter_completes_dict [of ?good 0 "new_scraper default_query"] g
  have "store (snd (snd (query_setter (QDict 0) (new_scraper default_query) ?good)))
        = (store ?good)(0 := store ?good 0
             @ map (\<lambda>k. (k, PyNone))
                 (filter (\<lambda>k. k \<notin> set (map fst (store ?good 0))) accepted_keys))"
    by blast
  then have 1: "store (snd (snd (query_setter (QDict 0) (new_scraper default_query) ?good))) 0
      = [(PyStr ''feature'', PyStr ''pflu0916''), (PyStr ''strain'', PyNone),
         (PyStr ''organism'', PyNone)]"
    by (simp add: holding_def accepted_keys_def)
  from query_setter_completes_dict [of ?bad 0 "new_scraper default_query"] b
  have 2: "store (snd (snd (query_setter (QDict 0) (new_scraper default_query) ?bad)))
      = store ?bad"
    by blast
  from g b 1 2 show ?thesis
    by simp
qed

section \<open>run_query before connect\<close>

text \<open>
  C3. On a scraper that is not connected, every call of \<^verbatim>\<open>run_query\<close>, whatever its
  argument, raises the \<^verbatim>\<open>RuntimeError\<close> that asks for \<^verbatim>\<open>connect()\<close>; the scraper is left
  as it was and no URL is requested (nothing is printed and no dictionary is written).
\<close>

theorem run_query_before_connect:
  "\<not> connected s \<Longrightarrow>
   run_query E val s w = (Inl (RuntimeError not_connected), s, w)
   \<and> requests (snd (snd (run_query E val s w))) = requests w"
  by (simp add: run_query_def)

theorem run_query_before_connect_witness:
  "\<not> connected (new_scraper default_query)
   \<and> run_query (site []) (QDict 0) (new_scraper default_query)
        (holding [(PyStr ''feature'', PyStr ''pflu0916'')])
      = (Inl (RuntimeError not_connected), new_scraper default_query,
         holding [(PyStr ''feature'', PyStr ''pflu0916'')])
   \<and> requests (snd (snd (run_query (site []) (QDict 0) (new_scraper default_query)
        (holding [(PyStr ''feature'', PyStr ''pflu0916'')])))) = []"
proof -
  have h: "\<not> connected (new_scraper default_query)"
    by (simp add: new_scraper_def)
  from run_query_before_connect [OF h, of "site []" "QDict 0"
      "holding [(PyStr ''feature'', PyStr ''pflu0916'')]"] h
  show ?thesis
    by (simp add: holding_def)
qed

section \<open>Fetching a page: lemmas\<close>

lemma str_find_from_found:
  "0 \<le> i \<Longrightarrow> (str_find_from i s sub > - 1) = (\<exists>pre post. s = pre @ sub @ post)"
proof (induction s arbitrary: i)
  case Nil
  then show ?case by auto
next
  case (Cons c cs)
  show ?case
  proof (cases "take (length sub) (c # cs) = sub")
    case True
    then have "c # cs = [] @ sub @ drop (length sub) (c # cs)"
      by (metis append_Nil append_take_drop_id)
    then have "\<exists>pre post. c # cs = pre @ sub @ post"
      by blast
    with True Cons.prems show ?thesis
      by simp
  next
    case False
    have "(\<exists>pre post. c # cs = pre @ sub @ post) = (\<exists>pre post. cs = pre @ sub @ post)"
    proof
      assume "\<exists>pre post. c # cs = pre @ sub @ post"
      then obtain pre post where eq: "c # cs = pre @ sub @ post"
        by blast
      from eq False have "pre \<noteq> []"
        by auto
      then obtain pre' where "pre = c # pre'"
        using eq by (cases pre) auto
      with eq show "\<exists>pre post. cs = pre @ sub @ post"
        by auto
    next
      assume "\<exists>pre post. cs = pre @ sub @ post"
      then obtain pre post where "cs = pre @ sub @ post"
        by blast
      then have "c # cs = (c # pre) @ sub @ post"
        by simp
      then show "\<exists>pre post. c # cs = pre @ sub @ post"
        by blast
    qed
    with False Cons.IH [of "i + 1"] Cons.prems show ?thesis
      by simp
  qed
qed

lemma str_find_found: "(str_find s sub > - 1) = (\<exists>pre post. s = pre @ sub @ post)"
  by (simp add: str_find_def str_find_from_found)

lemma simple_get_requests: "requests (snd (simple_get E url w)) = requests w @ [url]"
  by (simp add: simple_get_def print_def Let_def split: http_result.splits sum.splits)

lemma simple_get_good:
  "http_get E url = Resp r \<Longrightarrow> is_good_response r = Inr True \<Longrightarrow>
   simple_get E url w
     = (Inr (content r),
        print (''INFO: Good response from '' @ url @ ''.'') (w\<lparr>requests := requests w @ [url]\<rparr>))"
  by (simp add: simple_get_def Let_def)

lemma simple_get_Inr:
  "simple_get E url w = (Inr page, w') \<Longrightarrow>
   \<exists>r. http_get E url = Resp r \<and> is_good_response r = Inr True \<and> page = content r"
  by (auto simp: simple_get_def Let_def split: http_result.splits sum.splits if_splits)

section \<open>connect\<close>

lemma is_good_response_iff:
  "(is_good_response r = Inr True) =
     (status_code r = 200
      \<and> (\<exists>ct pre post. content_type r = Some ct \<and> lower ct = pre @ ''html'' @ post))"
  by (auto simp: is_good_response_def Let_def str_find_found split: option.splits)

lemma connect_good:
  "http_get E (pdc_url s) = Resp r \<Longrightarrow> is_good_response r = Inr True \<Longrightarrow>
   fst (connect E s w) = Inr ()
   \<and> fst (snd (connect E s w)) = s\<lparr>browser := Some (content r), connected := True\<rparr>"
  by (simp add: connect_def simple_get_good)

lemma connect_bad:
  "\<not> (\<exists>r. http_get E (pdc_url s) = Resp r \<and> is_good_response r = Inr True) \<Longrightarrow>
   fst (connect E s w) = Inl ConnectionError
   \<and> fst (snd (connect E s w)) = s\<lparr>connected := False\<rparr>"
  by (auto simp: connect_def dest: simple_get_Inr split: prod.splits sum.splits)

lemma connect_requests: "requests (snd (snd (connect E s w))) = requests w @ [pdc_url s]"
  using simple_get_requests [of E "pdc_url s" w]
  by (auto simp: connect_def split: prod.splits sum.splits)

text \<open>
  C4, as stated, fails: a response with status 201 and an HTML content type is neither a
  network failure nor a non-2xx nor a non-HTML response, and \<^verbatim>\<open>connect\<close> raises
  \<^verbatim>\<open>ConnectionError\<close> and leaves the scraper unconnected.
\<close>

theorem connect_status_201_counterexample:
  "status_code ((html_page [])\<lparr>status_code := 201\<rparr>) = 201
   \<and> content_type ((html_page [])\<lparr>status_code := 201\<rparr>) = Some ''text/html; charset=UTF-8''
   \<and> fst (connect (site [(''https://www.pseudomonas.com'', (html_page [])\<lparr>status_code := 201\<rparr>)])
        (new_scraper default_query) fresh) = Inl ConnectionError
   \<and> \<not> connected (fst (snd (connect
        (site [(''https://www.pseudomonas.com'', (html_page [])\<lparr>status_code := 201\<rparr>)])
        (new_scraper default_query) fresh)))"
  by (simp add: connect_def simple_get_def site_def html_page_def new_scraper_def
      is_good_response_def Let_def)

text \<open>
  C4, amended. \<^verbatim>\<open>connect\<close> requests the site root, once. When the request fails in the
  network, when the status is not 200, when the response has no content type, or when
  its content type, in lower case, does not contain \<^verbatim>\<open>html\<close>, it raises
  \<^verbatim>\<open>ConnectionError\<close> and the connection state is false afterwards. When the status is
  200 and the content type contains \<^verbatim>\<open>html\<close>, it returns, the connection state is true,
  and the page is kept.
\<close>

theorem connect_one_get:
  "requests (snd (snd (connect E s w))) = requests w @ [pdc_url s]
   \<and> (http_get E (pdc_url s) = NetFail
        \<or> http_get E (pdc_url s) = Resp r
           \<and> (status_code r \<noteq> 200 \<or> content_type r = None
                \<or> content_type r = Some ct \<and> \<not> (\<exists>pre post. lower ct = pre @ ''html'' @ post))
      \<longrightarrow> fst (connect E s w) = Inl ConnectionError
          \<and> \<not> connected (fst (snd (connect E s w))))
   \<and> (http_get E (pdc_url s) = Resp r \<and> status_code r = 200 \<and> content_type r = Some ct
        \<and> (\<exists>pre post. lower ct = pre @ ''html'' @ post)
      \<longrightarrow> fst (connect E s w) = Inr ()
          \<and> connected (fst (snd (connect E s w)))
          \<and> browser (fst (snd (connect E s w))) = Some (content r))"
proof (intro conjI impI)
  show "requests (snd (snd (connect E s w))) = requests w @ [pdc_url s]"
    by (rule connect_requests)
next
  assume bad: "http_get E (pdc_url s) = NetFail
        \<or> http_get E (pdc_url s) = Resp r
           \<and> (status_code r \<noteq> 200 \<or> content_type r = None
                \<or> content_type r = Some ct \<and> \<not> (\<exists>pre post. lower ct = pre @ ''html'' @ post))"
  then have "\<not> (\<exists>r. http_get E (pdc_url s) = Resp r \<and> is_good_response r = Inr True)"
    by (auto simp: is_good_response_iff)
  from connect_bad [OF this]
  show "fst (connect E s w) = Inl ConnectionError"
    and "\<not> connected (fst (snd (connect E s w)))"
    by simp_all
next
  assume good: "http_get E (pdc_url s) = Resp r \<and> status_code r = 200
    \<and> content_type r = Some ct \<and> (\<exists>pre post. lower ct = pre @ ''html'' @ post)"
  then have "is_good_response r = Inr True"
    by (auto simp: is_good_response_iff)
  with good connect_good [of E s r w]
  show "fst (connect E s w) = Inr ()"
    and "connected (fst (snd (connect E s w)))"
    and "browser (fst (snd (connect E s w))) = Some (content r)"
    by simp_all
qed

theorem connect_one_get_witness:
  "http_get (site []) (pdc_url (new_scraper default_query)) = NetFail
   \<and> fst (connect (site []) (new_scraper default_query) fresh) = Inl ConnectionError
   \<and> \<not> connected (fst (snd (connect (site []) (new_scraper default_query) fresh)))
   \<and> http_get (site [(''https://www.pseudomonas.com'', html_page [])])
        (pdc_url (new_scraper default_query)) = Resp (html_page [])
   \<and> status_code (html_page []) = 200
   \<and> content_type (html_page []) = Some ''text/html; charset=UTF-8''
   \<and> lower ''text/html; charset=UTF-8'' = ''text/'' @ ''html'' @ ''; charset=utf-8''
   \<and> fst (connect (site [(''https://www.pseudomonas.com'', html_page [])])
        (new_scraper default_query) fresh) = Inr ()
   \<and> connected (fst (snd (connect (site [(''https://www.pseudomonas.com'', html_page [])])
        (new_scraper default_query) fresh)))
   \<and> requests (snd (snd (connect (site [(''https://www.pseudomonas.com'', html_page [])])
        (new_scraper default_query) fresh))) = [''https://www.pseudomonas.com'']"
proof -
  let ?s = "new_scraper default_query"
  let ?up = "site [(''https://www.pseudomonas.com'', html_page [])]"
  have down: "http_get (site []) (pdc_url ?s) = NetFail"
    by (simp add: site_def)
  have up: "http_get ?up (pdc_url ?s) = Resp (html_page [])"
    by (simp add: site_def new_scraper_def)
  have page: "status_code (html_page []) = 200"
    "content_type (html_page []) = Some ''text/html; charset=UTF-8''"
    by (simp_all add: html_page_def)
  have low: "lower ''text/html; charset=UTF-8'' = ''text/'' @ ''html'' @ ''; charset=utf-8''"
    by (simp add: lower_def lower_char_def)
  then have html: "\<exists>pre post. lower ''text/html; charset=UTF-8'' = pre @ ''html'' @ post"
    by blast
  from connect_one_get [of "site []" ?s fresh] down
  have 1: "fst (connect (site []) ?s fresh) = Inl ConnectionError"
    "\<not> connected (fst (snd (connect (site []) ?s fresh)))"
    by blast+
  from connect_one_get [of ?up ?s fresh "html_page []" "''text/html; charset=UTF-8''"]
    up page html
  have 2: "fst (connect ?up ?s fresh) = Inr ()"
    "connected (fst (snd (connect ?up ?s fresh)))"
    "requests (snd (snd (connect ?up ?s fresh))) = requests fresh @ [pdc_url ?s]"
    by blast+
  from 1 2 down up page low show ?thesis
    by (simp add: fresh_def new_scraper_def)
qed

section \<open>The table under a heading\<close>

lemma find_from_None: "(find_from i sp name pat = None) = (\<forall>t \<in> set sp. \<not> fits name pat t)"
  by (induction sp arbitrary: i) auto

lemma find_one_None: "(find_one sp name pat = None) = (\<forall>t \<in> set sp. \<not> fits name pat t)"
  by (simp add: find_one_def find_from_None)

lemma heading_lookup_unguarded:
  "re_compile E table_heading = Some pat \<Longrightarrow> \<forall>t \<in> set sp. \<not> fits ''h3'' pat t \<Longrightarrow>
   pandasDF_from_heading E sp table_heading w = (Inl AttributeError, w)"
  by (simp add: pandasDF_from_heading_def find_one_None [THEN iffD2])

lemma heading_found_returns:
  "re_compile E table_heading = Some pat \<Longrightarrow> find_one sp ''h3'' pat = Some i \<Longrightarrow>
   \<exists>df. pandasDF_from_heading E sp table_heading w = (Inr df, w)
      \<or> pandasDF_from_heading E sp table_heading w
         = (Inr DataFrame, print (warning_no_data table_heading) w)"
  by (auto simp: pandasDF_from_heading_def Let_def split: option.splits list.splits)

lemma parse_error_soft:
  "re_compile E table_heading = Some pat \<Longrightarrow> find_one sp ''h3'' pat = Some i \<Longrightarrow>
   read_html E (case find_next sp i of None \<Rightarrow> ''None'' | Some t \<Rightarrow> tag_str t) = None \<Longrightarrow>
   pandasDF_from_heading E sp table_heading w
     = (Inr DataFrame, print (warning_no_data table_heading) w)"
  by (simp add: pandasDF_from_heading_def Let_def)

lemma pandasDF_from_heading_requests:
  "requests (snd (pandasDF_from_heading E sp table_heading w)) = requests w"
  by (simp add: pandasDF_from_heading_def Let_def print_def split: option.splits list.splits)

text \<open>
  C1 at a page without the heading: the page has the heading \<^verbatim>\<open>Product\<close> and its table,
  the heading asked for is \<^verbatim>\<open>Interactions\<close>. The lookup of the heading stands before the
  \<^verbatim>\<open>try\<close>: \<^verbatim>\<open>AttributeError\<close> reaches the caller, and no warning is printed.
\<close>

theorem absent_heading_raises:
  "pandasDF_from_heading (site []) [heading_tag ''Product'', table_tag] ''Interactions'' fresh
     = (Inl AttributeError, fresh)"
  by (simp add: pandasDF_from_heading_def site_def mock_re_def find_one_def fits_def
      heading_tag_def table_tag_def str_find_def)

section \<open>run_query on a connected scraper\<close>

lemma run_query_connected:
  "connected s \<Longrightarrow>
   (if val = QVal PyNone then (s1, w1) = (s, w) else query_setter val s w = (Inr (), s1, w1)) \<Longrightarrow>
   run_query E val s w = (fst (submit E s1 w1), s1, snd (submit E s1 w1))"
  by (auto simp: run_query_def split: prod.splits if_splits)

lemma loop1_requests: "requests (snd (loop1 E page hs ps w)) = requests w"
proof (induction hs arbitrary: ps w)
  case Nil
  show ?case by simp
next
  case (Cons h hs)
  obtain r1 w1 where 1: "pandasDF_from_heading E page h w = (r1, w1)"
    by (cases "pandasDF_from_heading E page h w")
  obtain r2 w2 where 2: "pandasDF_from_heading E page ''^References'' w1 = (r2, w2)"
    by (cases "pandasDF_from_heading E page ''^References'' w1")
  from 1 pandasDF_from_heading_requests [of E page h w] have a: "requests w1 = requests w"
    by simp
  from 2 pandasDF_from_heading_requests [of E page "''^References''" w1]
  have b: "requests w2 = requests w1"
    by simp
  from 1 2 a b Cons.IH show ?case
    by (simp split: sum.splits)
qed

lemma loop2_requests: "requests (snd (loop2 E page hs ps w)) = requests w"
proof (induction hs arbitrary: ps w)
  case Nil
  show ?case by simp
next
  case (Cons h hs)
  obtain r1 w1 where 1: "pandasDF_from_heading E page h w = (r1, w1)"
    by (cases "pandasDF_from_heading E page h w")
  from 1 pandasDF_from_heading_requests [of E page h w] have "requests w1 = requests w"
    by simp
  with 1 Cons.IH show ?case
    by (simp split: sum.splits)
qed

lemma scrape_panels_requests:
  "\<exists>rest. requests (snd (scrape_panels E feature_link w)) = requests w @ feature_link # rest"
proof -
  obtain r1 w1 where 1: "simple_get E feature_link w = (r1, w1)"
    by (cases "simple_get E feature_link w")
  with simple_get_requests [of E feature_link w]
  have a: "requests w1 = requests w @ [feature_link]"
    by simp
  show ?thesis
  proof (cases r1)
    case (Inl e)
    with 1 a show ?thesis
      by (simp add: scrape_panels_def)
  next
    case (Inr page)
    obtain r2 w2 where 2: "loop1 E page headings1 [] w1 = (r2, w2)"
      by (cases "loop1 E page headings1 [] w1")
    with loop1_requests [of E page headings1 "[]" w1] a
    have b: "requests w2 = requests w @ [feature_link]"
      by simp
    show ?thesis
    proof (cases r2)
      case (Inl e)
      with 1 2 Inr b show ?thesis
        by (simp add: scrape_panels_def)
    next
      case r2: (Inr ps)
      obtain r3 w3 where 3: "simple_get E (feature_link @ ''&view=functions'') w2 = (r3, w3)"
        by (cases "simple_get E (feature_link @ ''&view=functions'') w2")
      with simple_get_requests [of E "feature_link @ ''&view=functions''" w2] b
      have c: "requests w3 = requests w @ [feature_link, feature_link @ ''&view=functions'']"
        by simp
      show ?thesis
      proof (cases r3)
        case (Inl e)
        with 1 2 3 Inr r2 c show ?thesis
          by (simp add: scrape_panels_def)
      next
        case r3: (Inr page2)
        from loop2_requests [of E page2 headings2 ps w3] c
        have "requests (snd (loop2 E page2 headings2 ps w3))
            = requests w @ [feature_link, feature_link @ ''&view=functions'']"
          by simp
        with 1 2 3 Inr r2 r3 show ?thesis
          by (simp add: scrape_panels_def)
      qed
    qed
  qed
qed

lemma upper_ascii: "is_ascii s \<Longrightarrow> upper E s = map upper_char s"
  by (simp add: upper_def)

lemma filter_Nil_fits:
  "\<forall>t \<in> set page. \<not> (tag_name t = name \<and> (\<exists>text. tag_string t = Some text \<and> pat text)) \<Longrightarrow>
   find_all page name pat = []"
  by (auto simp: find_all_def fits_def filter_empty_conv split: option.splits)

lemma filter_Cons_fits:
  assumes "page = before @ t # after"
    and "\<forall>u \<in> set before. \<not> (tag_name u = name \<and> (\<exists>text. tag_string u = Some text \<and> pat text))"
    and "tag_name t = name" and "tag_string t = Some text" and "pat text"
  shows "find_all page name pat = t # find_all after name pat"
proof -
  from assms(2) have "filter (fits name pat) before = []"
    by (auto simp: fits_def filter_empty_conv split: option.splits)
  moreover from assms(3-5) have "fits name pat t"
    by (simp add: fits_def)
  ultimately show ?thesis
    using assms(1) by (simp add: find_all_def)
qed

text \<open>
  C2, as stated, fails: on a search page whose only link has the text \<^verbatim>\<open>pflu0916\<close>, the
  query for the feature \<^verbatim>\<open>pflu0916\<close> of the strain \<^verbatim>\<open>sbw25\<close> raises \<^verbatim>\<open>IndexError\<close>, though
  the text of the link is the feature term itself: the pattern searched for is the term
  in upper case.
\<close>

theorem lower_case_link_counterexample:
  "feature pflu0916_query = PyStr ''pflu0916''
   \<and> tag_name (link_tag ''/feature/show/?id=1459889'' ''pflu0916'') = ''a''
   \<and> tag_string (link_tag ''/feature/show/?id=1459889'' ''pflu0916'') = Some ''pflu0916''
   \<and> fst (run_query
        (site [(pflu0916_search, html_page [link_tag ''/feature/show/?id=1459889'' ''pflu0916''])])
        (QTuple pflu0916_query) (connected_scraper default_query) fresh)
      = Inl IndexError"
  by (simp add: run_query_def query_setter_def check_and_store_def is_str_or_None_def
      new_scraper_def connected_scraper_def pflu0916_query_def pflu0916_search_def
      submit_def search_url_def simple_get_def site_def html_page_def
      is_good_response_def lower_def lower_char_def str_find_def Let_def print_def
      find_feature_link_def upper_def is_ascii_def upper_char_def mock_re_def find_all_def
      fits_def
      link_tag_def)

text \<open>
  C2, amended. When \<^verbatim>\<open>run_query\<close> runs on a connected scraper whose query has a non-empty
  feature term and a search URL (strain or organism is set), the search page is fetched
  with a good response, and the feature term in upper case compiles as a regular
  expression, then: if no \<^verbatim>\<open>a\<close> tag of the page has a text in which that pattern finds a
  match, \<^verbatim>\<open>IndexError\<close> is raised and nothing more is requested; otherwise, if the first
  such tag has an \<^verbatim>\<open>href\<close>, the URL requested next is the base URL followed by that
  \<^verbatim>\<open>href\<close>.
\<close>

theorem feature_link_resolution:
  assumes "connected s"
    and "if val = QVal PyNone then (s1, w1) = (s, w)
         else query_setter val s w = (Inr (), s1, w1)"
    and "query s1 = Some q" and "feature q = PyStr f" and "f \<noteq> []"
    and "search_url (pdc_url s1) (PyStr f) q = Inr (Some url)"
    and "http_get E url = Resp r" and "is_good_response r = Inr True"
    and "re_compile E (upper E f) = Some pat"
  shows "((\<forall>t \<in> set (content r).
             \<not> (tag_name t = ''a'' \<and> (\<exists>text. tag_string t = Some text \<and> pat text))) \<longrightarrow>
           fst (run_query E val s w) = Inl IndexError
           \<and> requests (snd (snd (run_query E val s w))) = requests w1 @ [url])
       \<and> (content r = before @ t # after
           \<and> (\<forall>u \<in> set before.
                 \<not> (tag_name u = ''a'' \<and> (\<exists>text. tag_string u = Some text \<and> pat text)))
           \<and> tag_name t = ''a'' \<and> tag_string t = Some text \<and> pat text
           \<and> tag_href t = Some href \<longrightarrow>
           (\<exists>rest. requests (snd (snd (run_query E val s w)))
              = requests w1 @ url # (pdc_url s1 @ href) # rest))"
proof -
  define w2 where "w2 = print (''INFO: Good response from '' @ url @ ''.'')
    ((print (''DEBUG: Will now open '' @ url) w1)
      \<lparr>requests := requests (print (''DEBUG: Will now open '' @ url) w1) @ [url]\<rparr>)"
  have get: "simple_get E url (print (''DEBUG: Will now open '' @ url) w1)
      = (Inr (content r), w2)"
    unfolding w2_def using assms(7,8) by (rule simple_get_good)
  have req: "requests w2 = requests w1 @ [url]"
    by (simp add: w2_def print_def)
  have feat: "(if feature q = PyNone then PyStr [] else feature q) = PyStr f"
    using assms(4) by simp
  have run: "run_query E val s w = (fst (submit E s1 w1), s1, snd (submit E s1 w1))"
    using assms(1,2) by (rule run_query_connected)
  have sub: "submit E s1 w1 =
      (case find_feature_link E (content r) (PyStr f) of
         Inl e \<Rightarrow> (Inl e, w2)
       | Inr None \<Rightarrow> (Inl (UnboundLocalError ''feature_link''), w2)
       | Inr (Some None) \<Rightarrow> (Inl TypeError, w2)
       | Inr (Some (Some href)) \<Rightarrow> scrape_panels E (pdc_url s1 @ href) w2)"
    using assms(3,4,6) get by (simp add: submit_def Let_def)
  have link: "find_feature_link E (content r) (PyStr f) =
      (case find_all (content r) ''a'' pat of
         [] \<Rightarrow> Inl IndexError | t # _ \<Rightarrow> Inr (Some (tag_href t)))"
    using assms(5,9) by (simp add: find_feature_link_def)
  show ?thesis
  proof (intro conjI impI)
    assume none: "\<forall>t \<in> set (content r).
      \<not> (tag_name t = ''a'' \<and> (\<exists>text. tag_string t = Some text \<and> pat text))"
    from filter_Nil_fits [OF none] have "submit E s1 w1 = (Inl IndexError, w2)"
      by (simp add: sub link)
    with run req show "fst (run_query E val s w) = Inl IndexError"
      and "requests (snd (snd (run_query E val s w))) = requests w1 @ [url]"
      by simp_all
  next
    assume found: "content r = before @ t # after
      \<and> (\<forall>u \<in> set before.
            \<not> (tag_name u = ''a'' \<and> (\<exists>text. tag_string u = Some text \<and> pat text)))
      \<and> tag_name t = ''a'' \<and> tag_string t = Some text \<and> pat text
      \<and> tag_href t = Some href"
    then have "find_all (content r) ''a'' pat = t # find_all after ''a'' pat"
      using filter_Cons_fits [of "content r" before t after "''a''" pat "text"] by blast
    moreover from found have "tag_href t = Some href"
      by simp
    ultimately have "find_feature_link E (content r) (PyStr f) = Inr (Some (Some href))"
      by (simp add: link)
    then have "submit E s1 w1 = scrape_panels E (pdc_url s1 @ href) w2"
      by (simp add: sub)
    with run scrape_panels_requests [of E "pdc_url s1 @ href" w2] req
    show "\<exists>rest. requests (snd (snd (run_query E val s w)))
              = requests w1 @ url # (pdc_url s1 @ href) # rest"
      by simp
  qed
qed

theorem feature_link_resolution_witness:
  "connected (connected_scraper pflu0916_query)
   \<and> query (connected_scraper pflu0916_query) = Some pflu0916_query
   \<and> feature pflu0916_query = PyStr ''pflu0916''
   \<and> search_url (pdc_url (connected_scraper pflu0916_query)) (PyStr ''pflu0916'') pflu0916_query
       = Inr (Some pflu0916_search)
   \<and> http_get (site [(pflu0916_search, html_page search_result)]) pflu0916_search
       = Resp (html_page search_result)
   \<and> is_good_response (html_page search_result) = Inr True
   \<and> content (html_page search_result)
       = [link_tag ''/'' ''Home''] @ link_tag ''/feature/show/?id=1459889'' ''PFLU0916''
           # [link_tag ''/feature/show/?id=1459890'' ''PFLU0917'']
   \<and> (\<exists>rest. requests (snd (snd (run_query (site [(pflu0916_search, html_page search_result)])
          (QVal PyNone) (connected_scraper pflu0916_query) fresh)))
        = pflu0916_search # ''https://www.pseudomonas.com/feature/show/?id=1459889'' # rest)"
proof -
  let ?s = "connected_scraper pflu0916_query"
  let ?E = "site [(pflu0916_search, html_page search_result)]"
  let ?pat = "\<lambda>text. str_find text ''PFLU0916'' > - 1"
  have 1: "connected ?s"
    by (simp add: connected_scraper_def)
  have 2: "if QVal PyNone = QVal PyNone then (?s, fresh) = (?s, fresh)
      else query_setter (QVal PyNone) ?s fresh = (Inr (), ?s, fresh)"
    by simp
  have 3: "query ?s = Some pflu0916_query"
    by (simp add: connected_scraper_def new_scraper_def)
  have 4: "feature pflu0916_query = PyStr ''pflu0916''"
    by (simp add: pflu0916_query_def)
  have 5: "''pflu0916'' \<noteq> []"
    by simp
  have 6: "search_url (pdc_url ?s) (PyStr ''pflu0916'') pflu0916_query = Inr (Some pflu0916_search)"
    by (simp add: search_url_def connected_scraper_def new_scraper_def pflu0916_query_def
        pflu0916_search_def)
  have 7: "http_get ?E pflu0916_search = Resp (html_page search_result)"
    by (simp add: site_def)
  have 8: "is_good_response (html_page search_result) = Inr True"
    by (simp add: is_good_response_def html_page_def lower_def lower_char_def str_find_def)
  have 9: "re_compile ?E (upper ?E ''pflu0916'') = Some ?pat"
    by (simp add: site_def mock_re_def upper_def is_ascii_def upper_char_def)
  have page: "content (html_page search_result)
       = [link_tag ''/'' ''Home''] @ link_tag ''/feature/show/?id=1459889'' ''PFLU0916''
           # [link_tag ''/feature/show/?id=1459890'' ''PFLU0917'']"
    by (simp add: html_page_def search_result_def)
  have first: "\<forall>u \<in> set [link_tag ''/'' ''Home''].
      \<not> (tag_name u = ''a'' \<and> (\<exists>text. tag_string u = Some text \<and> ?pat text))"
    by (simp add: link_tag_def str_find_def)
  have hit: "tag_name (link_tag ''/feature/show/?id=1459889'' ''PFLU0916'') = ''a''"
    "tag_string (link_tag ''/feature/show/?id=1459889'' ''PFLU0916'') = Some ''PFLU0916''"
    "?pat ''PFLU0916''"
    "tag_href (link_tag ''/feature/show/?id=1459889'' ''PFLU0916'')
      = Some ''/feature/show/?id=1459889''"
    by (simp_all add: link_tag_def str_find_def)
  from feature_link_resolution [OF 1 2 3 4 5 6 7 8 9,
      of "[link_tag ''/'' ''Home'']" "link_tag ''/feature/show/?id=1459889'' ''PFLU0916''"
         "[link_tag ''/feature/show/?id=1459890'' ''PFLU0917'']" "''PFLU0916''"
         "''/feature/show/?id=1459889''"]
    page first hit
  have "\<exists>rest. requests (snd (snd (run_query ?E (QVal PyNone) ?s fresh)))
      = requests fresh @ pflu0916_search # (pdc_url ?s @ ''/feature/show/?id=1459889'') # rest"
    by blast
  then have "\<exists>rest. requests (snd (snd (run_query ?E (QVal PyNone) ?s fresh)))
      = pflu0916_search # ''https://www.pseudomonas.com/feature/show/?id=1459889'' # rest"
    by (simp add: fresh_def connected_scraper_def new_scraper_def)
  with 1 3 4 6 7 8 page show ?thesis
    by simp
qed

section \<open>run_query without a feature, or with a feature only\<close>

lemma valid_search_url:
  "valid_query q \<Longrightarrow> strain q \<noteq> PyNone \<or> organism q \<noteq> PyNone \<Longrightarrow>
   \<exists>url. search_url base (PyStr f) q = Inr (Some url)"
  by (cases "strain q"; cases "organism q")
    (auto simp: valid_query_def is_str_or_None_def search_url_def)

lemma submit_no_url:
  "query s = Some q \<Longrightarrow> strain q = PyNone \<Longrightarrow> organism q = PyNone \<Longrightarrow>
   submit E s w = (Inl (UnboundLocalError ''_url''), w)"
  by (simp add: submit_def search_url_def)

lemma submit_no_feature:
  assumes "query s = Some q" and "feature q = PyNone"
    and "search_url (pdc_url s) (PyStr []) q = Inr (Some url)"
  shows "fst (submit E s w) =
      (case http_get E url of
         NetFail \<Rightarrow> Inl RequestException
       | Resp r \<Rightarrow>
          (case is_good_response r of
             Inl e \<Rightarrow> Inl e
           | Inr good \<Rightarrow>
              if good then Inl (UnboundLocalError ''feature_link'')
              else Inl (RuntimeError (''ERROR: Could not open '' @ url @ ''.''))))"
    and "requests (snd (submit E s w)) = requests w @ [url]"
proof -
  define w0 where "w0 = print (''DEBUG: Will now open '' @ url) w"
  have sub: "submit E s w =
      (case simple_get E url w0 of
         (Inl e, w1) \<Rightarrow> (Inl e, w1)
       | (Inr page, w1) \<Rightarrow> (Inl (UnboundLocalError ''feature_link''), w1))"
    using assms
    by (auto simp: submit_def find_feature_link_def w0_def split: prod.splits sum.splits)
  have req: "requests w0 = requests w"
    by (simp add: w0_def print_def)
  show "fst (submit E s w) =
      (case http_get E url of
         NetFail \<Rightarrow> Inl RequestException
       | Resp r \<Rightarrow>
          (case is_good_response r of
             Inl e \<Rightarrow> Inl e
           | Inr good \<Rightarrow>
              if good then Inl (UnboundLocalError ''feature_link'')
              else Inl (RuntimeError (''ERROR: Could not open '' @ url @ ''.''))))"
    by (simp add: sub simple_get_def Let_def split: http_result.splits sum.splits)
  from simple_get_requests [of E url w0] req
  show "requests (snd (submit E s w)) = requests w @ [url]"
    by (auto simp: sub split: prod.splits sum.splits)
qed

text \<open>
  C9, as stated, fails: after a successful \<^verbatim>\<open>connect\<close>, with the default query (strain
  \<^verbatim>\<open>sbw25\<close>, no feature), at a site that answers the search URL with status 404,
  \<^verbatim>\<open>run_query\<close> raises the \<^verbatim>\<open>RuntimeError\<close> of the failed fetch, not an error about an
  unassigned local variable.
\<close>

theorem search_page_404_counterexample:
  "valid_query default_query \<and> feature default_query = PyNone
   \<and> connected (connected_scraper default_query)
   \<and> query (connected_scraper default_query) = Some default_query
   \<and> fst (run_query (site [(sbw25_search, (html_page [])\<lparr>status_code := 404\<rparr>)]) (QVal PyNone)
        (connected_scraper default_query) fresh)
      = Inl (RuntimeError (''ERROR: Could not open '' @ sbw25_search @ ''.''))"
  by (simp add: valid_query_def is_str_or_None_def default_query_def connected_scraper_def
      new_scraper_def run_query_def submit_def search_url_def sbw25_search_def
      simple_get_def site_def html_page_def is_good_response_def lower_def lower_char_def
      str_find_def Let_def print_def)

text \<open>
  C9, amended. For a valid query, run on a connected scraper (the stored query, or a query
  passed to \<^verbatim>\<open>run_query\<close> and accepted by the setter):
  when strain and organism are both absent, \<^verbatim>\<open>run_query\<close> raises \<^verbatim>\<open>UnboundLocalError\<close>
  for \<^verbatim>\<open>_url\<close> before anything is requested or printed;
  when the feature is absent and strain or organism is set, the search URL is requested
  and nothing else, and \<^verbatim>\<open>run_query\<close> raises \<^verbatim>\<open>UnboundLocalError\<close> for
  \<^verbatim>\<open>feature_link\<close> if the response is good, and the error of the fetch otherwise;
  in both cases \<^verbatim>\<open>run_query\<close> never returns a result mapping.
\<close>

theorem absent_feature_never_returns:
  assumes "connected s"
    and "if val = QVal PyNone then (s1, w1) = (s, w)
         else query_setter val s w = (Inr (), s1, w1)"
    and "query s1 = Some q" and "valid_query q"
  shows "(strain q = PyNone \<and> organism q = PyNone \<longrightarrow>
            run_query E val s w = (Inl (UnboundLocalError ''_url''), s1, w1))
       \<and> (feature q = PyNone \<and> (strain q \<noteq> PyNone \<or> organism q \<noteq> PyNone) \<longrightarrow>
            (\<exists>url. search_url (pdc_url s1) (PyStr []) q = Inr (Some url)
               \<and> requests (snd (snd (run_query E val s w))) = requests w1 @ [url]
               \<and> fst (run_query E val s w) =
                  (case http_get E url of
                     NetFail \<Rightarrow> Inl RequestException
                   | Resp r \<Rightarrow>
                      (case is_good_response r of
                         Inl e \<Rightarrow> Inl e
                       | Inr good \<Rightarrow>
                          if good then Inl (UnboundLocalError ''feature_link'')
                          else Inl (RuntimeError (''ERROR: Could not open '' @ url @ ''.''))))))
       \<and> (feature q = PyNone \<or> strain q = PyNone \<and> organism q = PyNone \<longrightarrow>
            (\<forall>ps. fst (run_query E val s w) \<noteq> Inr ps))"
proof -
  have run: "run_query E val s w = (fst (submit E s1 w1), s1, snd (submit E s1 w1))"
    using assms(1,2) by (rule run_query_connected)
  have a: "run_query E val s w = (Inl (UnboundLocalError ''_url''), s1, w1)"
    if "strain q = PyNone \<and> organism q = PyNone"
    using that assms(3) by (simp add: run submit_no_url)
  have b: "\<exists>url. search_url (pdc_url s1) (PyStr []) q = Inr (Some url)
               \<and> requests (snd (snd (run_query E val s w))) = requests w1 @ [url]
               \<and> fst (run_query E val s w) =
                  (case http_get E url of
                     NetFail \<Rightarrow> Inl RequestException
                   | Resp r \<Rightarrow>
                      (case is_good_response r of
                         Inl e \<Rightarrow> Inl e
                       | Inr good \<Rightarrow>
                          if good then Inl (UnboundLocalError ''feature_link'')
                          else Inl (RuntimeError (''ERROR: Could not open '' @ url @ ''.''))))"
    if h: "feature q = PyNone \<and> (strain q \<noteq> PyNone \<or> organism q \<noteq> PyNone)"
  proof -
    from valid_search_url [OF assms(4), of "pdc_url s1" "[]"] h
    obtain url where url: "search_url (pdc_url s1) (PyStr []) q = Inr (Some url)"
      by blast
    from h have "feature q = PyNone"
      by simp
    from submit_no_feature [OF assms(3) this url, of E w1] url show ?thesis
      by (simp add: run)
  qed
  have c: "fst (run_query E val s w) \<noteq> Inr ps"
    if h: "feature q = PyNone \<or> strain q = PyNone \<and> organism q = PyNone" for ps
  proof (cases "strain q = PyNone \<and> organism q = PyNone")
    case True
    from a [OF True] show ?thesis
      by simp
  next
    case False
    with h have "feature q = PyNone \<and> (strain q \<noteq> PyNone \<or> organism q \<noteq> PyNone)"
      by blast
    from b [OF this] obtain url where eq: "fst (run_query E val s w) =
        (case http_get E url of
           NetFail \<Rightarrow> Inl RequestException
         | Resp r \<Rightarrow>
            (case is_good_response r of
               Inl e \<Rightarrow> Inl e
             | Inr good \<Rightarrow>
                if good then Inl (UnboundLocalError ''feature_link'')
                else Inl (RuntimeError (''ERROR: Could not open '' @ url @ ''.''))))"
      by blast
    show ?thesis
      unfolding eq by (simp split: http_result.splits sum.splits)
  qed
  from a b c show ?thesis
    by blast
qed

theorem absent_feature_never_returns_witness:
  "connected (connected_scraper default_query)
   \<and> valid_query \<lparr>strain = PyNone, feature = PyStr ''pflu0916'', organism = PyNone\<rparr>
   \<and> run_query (site [])
        (QTuple \<lparr>strain = PyNone, feature = PyStr ''pflu0916'', organism = PyNone\<rparr>)
        (connected_scraper default_query) fresh
      = (Inl (UnboundLocalError ''_url''),
         connected_scraper \<lparr>strain = PyNone, feature = PyStr ''pflu0916'', organism = PyNone\<rparr>,
         fresh)
   \<and> query (connected_scraper default_query) = Some default_query
   \<and> valid_query default_query \<and> feature default_query = PyNone
   \<and> strain default_query \<noteq> PyNone
   \<and> fst (run_query (site [(sbw25_search, html_page search_result)]) (QVal PyNone)
        (connected_scraper default_query) fresh)
      = Inl (UnboundLocalError ''feature_link'')
   \<and> requests (snd (snd (run_query (site [(sbw25_search, html_page search_result)])
        (QVal PyNone) (connected_scraper default_query) fresh))) = [sbw25_search]"
proof -
  let ?f = "\<lparr>strain = PyNone, feature = PyStr ''pflu0916'', organism = PyNone\<rparr>"
  let ?s = "connected_scraper default_query"
  let ?E = "site [(sbw25_search, html_page search_result)]"
  have c: "connected ?s"
    by (simp add: connected_scraper_def)
  have vf: "valid_query ?f"
    by (simp add: valid_query_def is_str_or_None_def)
  have vd: "valid_query default_query" "feature default_query = PyNone"
    "strain default_query \<noteq> PyNone"
    by (simp_all add: valid_query_def is_str_or_None_def default_query_def)
  have set: "if QTuple ?f = QVal PyNone then (connected_scraper ?f, fresh) = (?s, fresh)
      else query_setter (QTuple ?f) ?s fresh = (Inr (), connected_scraper ?f, fresh)"
    by (simp add: query_setter_def check_and_store_def is_str_or_None_def
        connected_scraper_def new_scraper_def)
  have qf: "query (connected_scraper ?f) = Some ?f"
    by (simp add: connected_scraper_def new_scraper_def)
  from absent_feature_never_returns [OF c set qf vf, of "site []"]
  have 1: "run_query (site []) (QTuple ?f) ?s fresh
      = (Inl (UnboundLocalError ''_url''), connected_scraper ?f, fresh)"
    by simp
  have keep: "if QVal PyNone = QVal PyNone then (?s, fresh) = (?s, fresh)
      else query_setter (QVal PyNone) ?s fresh = (Inr (), ?s, fresh)"
    by simp
  have qd: "query ?s = Some default_query"
    by (simp add: connected_scraper_def new_scraper_def)
  have url: "search_url (pdc_url ?s) (PyStr []) default_query = Inr (Some sbw25_search)"
    by (simp add: search_url_def connected_scraper_def new_scraper_def default_query_def
        sbw25_search_def)
  have page: "http_get ?E sbw25_search = Resp (html_page search_result)"
    "is_good_response (html_page search_result) = Inr True"
    by (simp_all add: site_def is_good_response_def html_page_def lower_def lower_char_def
        str_find_def)
  from absent_feature_never_returns [OF c keep qd vd(1), of ?E] vd url page
  have 2: "fst (run_query ?E (QVal PyNone) ?s fresh) = Inl (UnboundLocalError ''feature_link'')"
    "requests (snd (snd (run_query ?E (QVal PyNone) ?s fresh))) = requests fresh @ [sbw25_search]"
    by auto
  from c vf 1 qd vd 2 show ?thesis
    by (simp add: fresh_def)
qed

end
